theory Spec2Isabelle
  imports Complex_Main
begin

section \<open>Elevator DEVS models: door, floor selector, mover\<close>

text \<open>
  The three atomic models of the elevator example (\<^verbatim>\<open>ElevatorDoor\<close>, \<^verbatim>\<open>ElevatorNum\<close>,
  \<^verbatim>\<open>ElevatorMove\<close>) are embedded as pure functions on records of their state structs.
  A transition of the C++ code mutates the state through a reference; here it takes the
  state and returns the new one.

  The C++ \<^verbatim>\<open>int\<close> fields are modelled as \<^typ>\<open>int\<close>: the only arithmetic in the three
  models is \<^verbatim>\<open>floorNum += 1\<close> under the guard \<^verbatim>\<open>floorNum < floorToMove\<close> and
  \<^verbatim>\<open>floorNum -= 1\<close> under \<^verbatim>\<open>floorNum > floorToMove\<close>, neither of which can leave the
  range of a machine integer (lemma \<open>ElevatorMove_internalTransition_in_range\<close>).

  The field \<^verbatim>\<open>sigma\<close> is a \<^verbatim>\<open>double\<close> that is only ever assigned one of the literals
  \<^verbatim>\<open>0\<close>, \<^verbatim>\<open>0.11\<close>, \<^verbatim>\<open>2.0\<close> or \<^verbatim>\<open>std::numeric_limits<double>::infinity()\<close> and
  returned by \<^verbatim>\<open>timeAdvance\<close>; no arithmetic is done on it. It is modelled as a finite
  number of seconds, written as the literal, or infinity.
\<close>

datatype time = Seconds rat | Infinity

text \<open>
  An input port holds the bag of messages delivered for the current transition, a vector
  that the code walks front to back with \<^verbatim>\<open>for (x : port->getBag())\<close>. A bag is a list.
  The parameter \<^verbatim>\<open>e\<close> (elapsed time) of the external transitions is never read and is
  left out.
\<close>

subsection \<open>ElevatorDoor\<close>

record ElevatorDoorState =
  sigma :: time
  floorNum :: int
  floorNumToMove :: int
  lightOn :: bool
  currentStatus :: string

text \<open>The state after the constructor of \<^verbatim>\<open>ElevatorDoor\<close> has run.\<close>

definition ElevatorDoor_initial :: ElevatorDoorState where
  "ElevatorDoor_initial =
     \<lparr>sigma = Seconds 0.11, floorNum = 1, floorNumToMove = 1, lightOn = False,
      currentStatus = ''''\<rparr>"

definition ElevatorDoor_internalTransition :: "ElevatorDoorState \<Rightarrow> ElevatorDoorState" where
  "ElevatorDoor_internalTransition state =
     (if lightOn state = True then state\<lparr>ElevatorDoorState.sigma := Infinity\<rparr>
      else if lightOn state = False then state\<lparr>ElevatorDoorState.sigma := Seconds 0.11\<rparr>
      else state)"

text \<open>The body of the loop over the bag of \<^verbatim>\<open>inElevatorNum\<close>.\<close>

definition ElevatorDoor_onElevatorNum :: "ElevatorDoorState \<Rightarrow> int \<Rightarrow> ElevatorDoorState" where
  "ElevatorDoor_onElevatorNum state x =
     (if x = ElevatorDoorState.floorNum state
      then state\<lparr>lightOn := False, ElevatorDoorState.sigma := Seconds 0.11\<rparr>
      else state\<lparr>lightOn := True, floorNumToMove := x\<rparr>)"

text \<open>The body of the loop over the bag of \<^verbatim>\<open>inElevatorMove\<close>.\<close>

definition ElevatorDoor_onElevatorMove :: "ElevatorDoorState \<Rightarrow> int \<Rightarrow> ElevatorDoorState" where
  "ElevatorDoor_onElevatorMove state y = state\<lparr>ElevatorDoorState.floorNum := y\<rparr>"

definition ElevatorDoor_externalTransition ::
    "ElevatorDoorState \<Rightarrow> int list \<Rightarrow> int list \<Rightarrow> ElevatorDoorState" where
  "ElevatorDoor_externalTransition state inElevatorNum inElevatorMove =
     (let state1 = (if inElevatorNum \<noteq> []
                    then foldl ElevatorDoor_onElevatorNum state inElevatorNum else state);
          state2 = (if inElevatorMove \<noteq> []
                    then foldl ElevatorDoor_onElevatorMove state1 inElevatorMove else state1)
      in state2)"

text \<open>\<^verbatim>\<open>output\<close>: the messages put on \<^verbatim>\<open>outDoorStatus\<close> and \<^verbatim>\<open>outFloorToMove\<close>.\<close>

definition ElevatorDoor_output :: "ElevatorDoorState \<Rightarrow> bool \<times> int" where
  "ElevatorDoor_output state = (lightOn state, floorNumToMove state)"

definition ElevatorDoor_timeAdvance :: "ElevatorDoorState \<Rightarrow> time" where
  "ElevatorDoor_timeAdvance state = ElevatorDoorState.sigma state"

text \<open>
  Modelled from the spec: the port type of the simulation kernel is not part of the
  sources. The spec (section 5) says that messages arriving at one component within one
  instant are handled as a single combined transition invocation, with all pending
  inputs on all channels visible together. A delivery is the sequence of messages in the
  order they arrive, each tagged with its port; every port collects its own messages, in
  arrival order, into its bag, and the external transition is then called once.
\<close>

datatype ElevatorDoorInput = InElevatorNum int | InElevatorMove int

fun bag_inElevatorNum :: "ElevatorDoorInput list \<Rightarrow> int list" where
  "bag_inElevatorNum [] = []"
| "bag_inElevatorNum (InElevatorNum x # ms) = x # bag_inElevatorNum ms"
| "bag_inElevatorNum (InElevatorMove y # ms) = bag_inElevatorNum ms"

fun bag_inElevatorMove :: "ElevatorDoorInput list \<Rightarrow> int list" where
  "bag_inElevatorMove [] = []"
| "bag_inElevatorMove (InElevatorNum x # ms) = bag_inElevatorMove ms"
| "bag_inElevatorMove (InElevatorMove y # ms) = y # bag_inElevatorMove ms"

definition ElevatorDoor_deliver :: "ElevatorDoorState \<Rightarrow> ElevatorDoorInput list \<Rightarrow> ElevatorDoorState" where
  "ElevatorDoor_deliver state ms =
     ElevatorDoor_externalTransition state (bag_inElevatorNum ms) (bag_inElevatorMove ms)"

subsection \<open>ElevatorNum\<close>

record ElevatorNumState =
  sigma :: time
  xCoordinate :: int
  yCoordinate :: int
  floorNum :: int
  doorStatus :: bool
  currentStatus :: string

text \<open>The state after the constructor of \<^verbatim>\<open>ElevatorNum\<close> has run.\<close>

definition ElevatorNum_initial :: ElevatorNumState where
  "ElevatorNum_initial =
     \<lparr>sigma = Seconds 0.11, xCoordinate = 0, yCoordinate = 0, floorNum = 1,
      doorStatus = False, currentStatus = ''''\<rparr>"

definition ElevatorNum_internalTransition :: "ElevatorNumState \<Rightarrow> ElevatorNumState" where
  "ElevatorNum_internalTransition state = state"

text \<open>
  The body of the loop over the bag of \<^verbatim>\<open>inInput\<close>. The port carries \<^verbatim>\<open>bool\<close>; the test
  \<^verbatim>\<open>i==0\<close> promotes the message to an integer, so it holds for \<^verbatim>\<open>false\<close> only.
\<close>

definition ElevatorNum_onInput :: "ElevatorNumState \<Rightarrow> bool \<Rightarrow> ElevatorNumState" where
  "ElevatorNum_onInput state i =
     (if doorStatus state = False then
        (if of_bool i = (0::int) then
           (if xCoordinate state < 400 \<and> yCoordinate state > 600 \<and>
               ElevatorNumState.floorNum state \<noteq> 1
            then state\<lparr>ElevatorNumState.floorNum := 1,
                       ElevatorNumState.currentStatus :=
                         ElevatorNumState.currentStatus state @ ''1 ''\<rparr>
            else if xCoordinate state > 600 \<and> yCoordinate state > 600 \<and>
               ElevatorNumState.floorNum state \<noteq> 2
            then state\<lparr>ElevatorNumState.floorNum := 2,
                       ElevatorNumState.currentStatus :=
                         ElevatorNumState.currentStatus state @ ''2 ''\<rparr>
            else if xCoordinate state < 400 \<and> yCoordinate state < 400 \<and>
               ElevatorNumState.floorNum state \<noteq> 3
            then state\<lparr>ElevatorNumState.floorNum := 3,
                       ElevatorNumState.currentStatus :=
                         ElevatorNumState.currentStatus state @ ''3 ''\<rparr>
            else if xCoordinate state > 600 \<and> yCoordinate state < 400 \<and>
               ElevatorNumState.floorNum state \<noteq> 4
            then state\<lparr>ElevatorNumState.floorNum := 4,
                       ElevatorNumState.currentStatus :=
                         ElevatorNumState.currentStatus state @ ''4 ''\<rparr>
            else state)
         else state)
      else state\<lparr>ElevatorNumState.currentStatus :=
                   ElevatorNumState.currentStatus state @ ''DC ''\<rparr>)"

definition ElevatorNum_onX :: "ElevatorNumState \<Rightarrow> int \<Rightarrow> ElevatorNumState" where
  "ElevatorNum_onX state x = state\<lparr>xCoordinate := x\<rparr>"

definition ElevatorNum_onY :: "ElevatorNumState \<Rightarrow> int \<Rightarrow> ElevatorNumState" where
  "ElevatorNum_onY state y = state\<lparr>yCoordinate := y\<rparr>"

definition ElevatorNum_onDoorStatus :: "ElevatorNumState \<Rightarrow> bool \<Rightarrow> ElevatorNumState" where
  "ElevatorNum_onDoorStatus state d = state\<lparr>doorStatus := d\<rparr>"

definition ElevatorNum_externalTransition ::
    "ElevatorNumState \<Rightarrow> bool list \<Rightarrow> int list \<Rightarrow> int list \<Rightarrow> bool list \<Rightarrow> ElevatorNumState" where
  "ElevatorNum_externalTransition state inInput inX inY inDoorStatus =
     (let state1 = (if inInput \<noteq> [] then foldl ElevatorNum_onInput state inInput else state);
          state2 = (if inX \<noteq> [] then foldl ElevatorNum_onX state1 inX else state1);
          state3 = (if inY \<noteq> [] then foldl ElevatorNum_onY state2 inY else state2);
          state4 = (if inDoorStatus \<noteq> []
                    then foldl ElevatorNum_onDoorStatus state3 inDoorStatus else state3)
      in state4)"

text \<open>\<^verbatim>\<open>output\<close>: the message put on \<^verbatim>\<open>out\<close>.\<close>

definition ElevatorNum_output :: "ElevatorNumState \<Rightarrow> int" where
  "ElevatorNum_output state = ElevatorNumState.floorNum state"

definition ElevatorNum_timeAdvance :: "ElevatorNumState \<Rightarrow> time" where
  "ElevatorNum_timeAdvance state = ElevatorNumState.sigma state"

text \<open>
  A run of external transitions that each carry one message on \<^verbatim>\<open>inInput\<close> and nothing on
  the other ports: a sequence of button messages, one transition per message.
\<close>

definition ElevatorNum_pulses :: "ElevatorNumState \<Rightarrow> bool list \<Rightarrow> ElevatorNumState" where
  "ElevatorNum_pulses state pulses =
     foldl (\<lambda>s i. ElevatorNum_externalTransition s [i] [] [] []) state pulses"

subsection \<open>ElevatorMove\<close>

text \<open>
  \<^verbatim>\<open>std::to_string\<close> on an \<^verbatim>\<open>int\<close>: the decimal digits, with a minus sign for a negative
  number.
\<close>

function nat_to_string :: "nat \<Rightarrow> string" where
  "nat_to_string n =
     (if n < 10 then [char_of (48 + n)]
      else nat_to_string (n div 10) @ [char_of (48 + n mod 10)])"
  by pat_completeness auto
termination
  by (relation "measure id") auto

declare nat_to_string.simps [simp del]

definition to_string :: "int \<Rightarrow> string" where
  "to_string i = (if i < 0 then CHR ''-'' # nat_to_string (nat (- i)) else nat_to_string (nat i))"

record ElevatorMoveState =
  sigma :: time
  floorNum :: int
  floorToMove :: int
  buzzerDuty :: int
  currentStatus :: string
  currentStatuss :: string

text \<open>The line for the display that the constructor and the internal transition build.\<close>

definition lcd_floors :: "int \<Rightarrow> int \<Rightarrow> string" where
  "lcd_floors toMove num =
     ''BSP_LCD_DrawString(0,5,DFloor:'' @ to_string toMove @ '' CFloor:'' @ to_string num @
     '',LCD_WHITE)''"

text \<open>
  The state after the constructor of \<^verbatim>\<open>ElevatorMove\<close> has run: \<^verbatim>\<open>currentStatus\<close> holds the
  last of the five lines the constructor sends to the display.
\<close>

definition ElevatorMove_initial :: ElevatorMoveState where
  "ElevatorMove_initial =
     \<lparr>sigma = Seconds 2.0, floorNum = 1, floorToMove = 1, buzzerDuty = 0,
      currentStatus = lcd_floors 1 1, currentStatuss = ''''\<rparr>"

definition ElevatorMove_internalTransition :: "ElevatorMoveState \<Rightarrow> ElevatorMoveState" where
  "ElevatorMove_internalTransition state =
     (if ElevatorMoveState.floorNum state < floorToMove state
      then state\<lparr>buzzerDuty := 2,
                 ElevatorMoveState.floorNum := ElevatorMoveState.floorNum state + 1,
                 ElevatorMoveState.currentStatus :=
                   lcd_floors (floorToMove state) (ElevatorMoveState.floorNum state + 1)\<rparr>
      else if ElevatorMoveState.floorNum state > floorToMove state
      then state\<lparr>buzzerDuty := 2,
                 ElevatorMoveState.floorNum := ElevatorMoveState.floorNum state - 1,
                 ElevatorMoveState.currentStatus :=
                   lcd_floors (floorToMove state) (ElevatorMoveState.floorNum state - 1)\<rparr>
      else if ElevatorMoveState.floorNum state = floorToMove state
      then state\<lparr>buzzerDuty := 0\<rparr>
      else state)"

text \<open>The body of the loop over the bag of \<^verbatim>\<open>inMoveFloor\<close>.\<close>

definition ElevatorMove_onMoveFloor :: "ElevatorMoveState \<Rightarrow> int \<Rightarrow> ElevatorMoveState" where
  "ElevatorMove_onMoveFloor state x =
     (if floorToMove state \<noteq> x
      then state\<lparr>floorToMove := x,
                 currentStatuss := currentStatuss state @ ''IN:'' @ to_string x\<rparr>
      else state)"

definition ElevatorMove_externalTransition ::
    "ElevatorMoveState \<Rightarrow> int list \<Rightarrow> ElevatorMoveState" where
  "ElevatorMove_externalTransition state inMoveFloor =
     (if inMoveFloor \<noteq> [] then foldl ElevatorMove_onMoveFloor state inMoveFloor else state)"

text \<open>
  \<^verbatim>\<open>output\<close>: the messages put on \<^verbatim>\<open>outMoveFloor\<close>, \<^verbatim>\<open>outMoveBuzzer\<close> and \<^verbatim>\<open>lcdStatus\<close>.
\<close>

definition ElevatorMove_output :: "ElevatorMoveState \<Rightarrow> int \<times> int \<times> string" where
  "ElevatorMove_output state =
     (ElevatorMoveState.floorNum state, buzzerDuty state, ElevatorMoveState.currentStatus state)"

definition ElevatorMove_timeAdvance :: "ElevatorMoveState \<Rightarrow> time" where
  "ElevatorMove_timeAdvance state = ElevatorMoveState.sigma state"

text \<open>
  The states the mover can be in: the initial one, and every state a transition produces
  from a state it can be in. An external transition is called with the bag of messages
  that arrived, whatever they are.
\<close>

inductive ElevatorMove_reachable :: "ElevatorMoveState \<Rightarrow> bool" where
  initial: "ElevatorMove_reachable ElevatorMove_initial"
| internal: "ElevatorMove_reachable s \<Longrightarrow> ElevatorMove_reachable (ElevatorMove_internalTransition s)"
| external: "ElevatorMove_reachable s \<Longrightarrow>
     ElevatorMove_reachable (ElevatorMove_externalTransition s inMoveFloor)"

text \<open>
  The predicate of the spec on a mover state: the activity is idle (the buzzer duty is 0)
  exactly when the current floor is the target floor.
\<close>

definition ElevatorMove_idle_iff_arrived :: "ElevatorMoveState \<Rightarrow> bool" where
  "ElevatorMove_idle_iff_arrived state =
     ((buzzerDuty state = 0) = (ElevatorMoveState.floorNum state = floorToMove state))"

text \<open>The values of a 32-bit \<^verbatim>\<open>int\<close>.\<close>

definition int32_range :: "int \<Rightarrow> bool" where
  "int32_range x = (- (2 ^ 31) \<le> x \<and> x < 2 ^ 31)"

section \<open>Properties of ElevatorDoor\<close>

lemma ElevatorDoor_moves_last:
  "ys \<noteq> [] \<Longrightarrow>
   foldl ElevatorDoor_onElevatorMove s ys = s\<lparr>ElevatorDoorState.floorNum := last ys\<rparr>"
proof (induction ys arbitrary: s)
  case Nil
  then show ?case by simp
next
  case (Cons y ys)
  show ?case
  proof (cases "ys = []")
    case True
    then show ?thesis by (simp add: ElevatorDoor_onElevatorMove_def)
  next
    case False
    then show ?thesis
      using Cons.IH [of "ElevatorDoor_onElevatorMove s y"]
      by (simp add: ElevatorDoor_onElevatorMove_def)
  qed
qed

lemma ElevatorDoor_moves_frame:
  "lightOn (foldl ElevatorDoor_onElevatorMove s ys) = lightOn s \<and>
   floorNumToMove (foldl ElevatorDoor_onElevatorMove s ys) = floorNumToMove s \<and>
   ElevatorDoorState.sigma (foldl ElevatorDoor_onElevatorMove s ys) = ElevatorDoorState.sigma s \<and>
   ElevatorDoorState.currentStatus (foldl ElevatorDoor_onElevatorMove s ys) =
     ElevatorDoorState.currentStatus s"
  by (induction ys arbitrary: s) (simp_all add: ElevatorDoor_onElevatorMove_def)

text \<open>
  C9. For every state of the door, the internal transition sets the time advance to
  infinity when \<open>lightOn\<close> (door closed) holds and to the short quantum 0.11 when it does
  not, and changes no other field. A further internal transition changes nothing, so the
  door rests in one of two modes: open, re-armed every 0.11, or closed, waiting for an
  external event.
\<close>

theorem ElevatorDoor_internalTransition_sigma:
  "ElevatorDoor_timeAdvance (ElevatorDoor_internalTransition s) =
     (if lightOn s then Infinity else Seconds 0.11) \<and>
   ElevatorDoor_internalTransition s =
     s\<lparr>ElevatorDoorState.sigma := (if lightOn s then Infinity else Seconds 0.11)\<rparr> \<and>
   ElevatorDoor_internalTransition (ElevatorDoor_internalTransition s) =
     ElevatorDoor_internalTransition s"
  by (simp add: ElevatorDoor_internalTransition_def ElevatorDoor_timeAdvance_def)

theorem ElevatorDoor_internalTransition_sigma_witness:
  "ElevatorDoor_timeAdvance (ElevatorDoor_internalTransition ElevatorDoor_initial) = Seconds 0.11 \<and>
   ElevatorDoor_timeAdvance
     (ElevatorDoor_internalTransition (ElevatorDoor_initial\<lparr>lightOn := True\<rparr>)) = Infinity"
  using ElevatorDoor_internalTransition_sigma [of ElevatorDoor_initial]
    ElevatorDoor_internalTransition_sigma [of "ElevatorDoor_initial\<lparr>lightOn := True\<rparr>"]
  by (simp add: ElevatorDoor_initial_def ElevatorDoor_timeAdvance_def)

text \<open>
  C1. For every state of the door, an external transition that carries one requested
  floor \<open>x\<close> on \<^verbatim>\<open>inElevatorNum\<close> (and any bag, empty or not, of mover feedback): if \<open>x\<close> is
  the stored \<open>floorNum\<close>, \<open>lightOn\<close> becomes false, \<open>sigma\<close> becomes 0.11 and
  \<open>floorNumToMove\<close> keeps its value; if \<open>x\<close> differs, \<open>lightOn\<close> becomes true and
  \<open>floorNumToMove\<close> becomes \<open>x\<close>, which is then what the output sends on to the mover. So
  after the transition the door is closed exactly when
  the request differed from the floor stored when the transition began.
\<close>

theorem ElevatorDoor_request:
  "(x = ElevatorDoorState.floorNum s \<longrightarrow>
      lightOn (ElevatorDoor_externalTransition s [x] ms) = False \<and>
      ElevatorDoorState.sigma (ElevatorDoor_externalTransition s [x] ms) = Seconds 0.11 \<and>
      floorNumToMove (ElevatorDoor_externalTransition s [x] ms) = floorNumToMove s) \<and>
   (x \<noteq> ElevatorDoorState.floorNum s \<longrightarrow>
      lightOn (ElevatorDoor_externalTransition s [x] ms) = True \<and>
      floorNumToMove (ElevatorDoor_externalTransition s [x] ms) = x \<and>
      ElevatorDoor_output (ElevatorDoor_externalTransition s [x] ms) = (True, x)) \<and>
   lightOn (ElevatorDoor_externalTransition s [x] ms) = (x \<noteq> ElevatorDoorState.floorNum s)"
  by (simp add: ElevatorDoor_externalTransition_def ElevatorDoor_onElevatorNum_def
      ElevatorDoor_output_def ElevatorDoor_moves_frame Let_def)

theorem ElevatorDoor_request_witness:
  "lightOn (ElevatorDoor_externalTransition ElevatorDoor_initial [1] []) = False \<and>
   ElevatorDoorState.sigma (ElevatorDoor_externalTransition ElevatorDoor_initial [1] []) =
     Seconds 0.11 \<and>
   floorNumToMove (ElevatorDoor_externalTransition ElevatorDoor_initial [1] []) = 1 \<and>
   lightOn (ElevatorDoor_externalTransition ElevatorDoor_initial [3] [2]) = True \<and>
   floorNumToMove (ElevatorDoor_externalTransition ElevatorDoor_initial [3] [2]) = 3"
  using ElevatorDoor_request [of 1 ElevatorDoor_initial "[]"]
    ElevatorDoor_request [of 3 ElevatorDoor_initial "[2]"]
  by (simp add: ElevatorDoor_initial_def)

text \<open>
  C3. For every state of the door, an external transition in which only \<^verbatim>\<open>inElevatorMove\<close>
  carries input sets \<open>floorNum\<close> to the received value, whatever it is, and leaves every
  other field (\<open>lightOn\<close>, \<open>floorNumToMove\<close>, \<open>sigma\<close>, \<open>currentStatus\<close>) as it was. When the
  bag holds several values the last one is stored.
\<close>

theorem ElevatorDoor_feedback:
  "ElevatorDoor_externalTransition s [] [y] = s\<lparr>ElevatorDoorState.floorNum := y\<rparr> \<and>
   ElevatorDoor_externalTransition s [] (ys @ [y]) = s\<lparr>ElevatorDoorState.floorNum := y\<rparr>"
  by (simp add: ElevatorDoor_externalTransition_def ElevatorDoor_moves_last
      ElevatorDoor_onElevatorMove_def del: foldl_append)

theorem ElevatorDoor_feedback_witness:
  "ElevatorDoor_externalTransition ElevatorDoor_initial [] [3] =
     ElevatorDoor_initial\<lparr>ElevatorDoorState.floorNum := 3\<rparr> \<and>
   ElevatorDoor_externalTransition ElevatorDoor_initial [] [2, 3, 4] =
     ElevatorDoor_initial\<lparr>ElevatorDoorState.floorNum := 4\<rparr>"
  using ElevatorDoor_feedback [of ElevatorDoor_initial 3 "[]"]
    ElevatorDoor_feedback [of ElevatorDoor_initial 4 "[2, 3]"]
  by simp

text \<open>
  C4. When a requested floor \<open>x\<close> and a mover feedback \<open>y\<close> are delivered to the door for
  the same external transition, the state that results is the same whichever of the two
  arrived first; the request is compared with the \<open>floorNum\<close> held before the feedback is
  stored (the result is the request branch run on the old state, with \<open>floorNum\<close> then
  set to \<open>y\<close>), so the door is closed exactly when \<open>x\<close> differs from the old \<open>floorNum\<close>.
\<close>

theorem ElevatorDoor_same_instant:
  "ElevatorDoor_deliver s [InElevatorNum x, InElevatorMove y] =
     ElevatorDoor_deliver s [InElevatorMove y, InElevatorNum x] \<and>
   ElevatorDoor_deliver s [InElevatorNum x, InElevatorMove y] =
     (ElevatorDoor_onElevatorNum s x)\<lparr>ElevatorDoorState.floorNum := y\<rparr> \<and>
   lightOn (ElevatorDoor_deliver s [InElevatorNum x, InElevatorMove y]) =
     (x \<noteq> ElevatorDoorState.floorNum s) \<and>
   ElevatorDoorState.floorNum (ElevatorDoor_deliver s [InElevatorNum x, InElevatorMove y]) = y"
  by (simp add: ElevatorDoor_deliver_def ElevatorDoor_externalTransition_def
      ElevatorDoor_onElevatorNum_def ElevatorDoor_onElevatorMove_def)

theorem ElevatorDoor_same_instant_witness:
  "lightOn (ElevatorDoor_deliver ElevatorDoor_initial [InElevatorMove 2, InElevatorNum 2]) =
     True \<and>
   floorNumToMove (ElevatorDoor_deliver ElevatorDoor_initial [InElevatorMove 2, InElevatorNum 2]) =
     2 \<and>
   ElevatorDoorState.floorNum
     (ElevatorDoor_deliver ElevatorDoor_initial [InElevatorMove 2, InElevatorNum 2]) = 2"
  using ElevatorDoor_same_instant [of ElevatorDoor_initial 2 2]
  by (simp add: ElevatorDoor_initial_def ElevatorDoor_deliver_def
      ElevatorDoor_externalTransition_def ElevatorDoor_onElevatorNum_def
      ElevatorDoor_onElevatorMove_def)

section \<open>Properties of ElevatorNum\<close>

lemma ElevatorNum_axes_frame:
  "ElevatorNumState.floorNum (foldl ElevatorNum_onX s xs) = ElevatorNumState.floorNum s \<and>
   ElevatorNumState.currentStatus (foldl ElevatorNum_onX s xs) = ElevatorNumState.currentStatus s \<and>
   ElevatorNumState.floorNum (foldl ElevatorNum_onY s xs) = ElevatorNumState.floorNum s \<and>
   ElevatorNumState.currentStatus (foldl ElevatorNum_onY s xs) = ElevatorNumState.currentStatus s"
  by (induction xs arbitrary: s) (simp_all add: ElevatorNum_onX_def ElevatorNum_onY_def)

lemma ElevatorNum_door_frame:
  "ElevatorNumState.floorNum (foldl ElevatorNum_onDoorStatus s ds) = ElevatorNumState.floorNum s \<and>
   ElevatorNumState.currentStatus (foldl ElevatorNum_onDoorStatus s ds) =
     ElevatorNumState.currentStatus s"
  by (induction ds arbitrary: s) (simp_all add: ElevatorNum_onDoorStatus_def)

lemma ElevatorNum_externalTransition_floorNum:
  "ElevatorNumState.floorNum (ElevatorNum_externalTransition s pulses xs ys ds) =
     ElevatorNumState.floorNum (foldl ElevatorNum_onInput s pulses)"
  by (simp add: ElevatorNum_externalTransition_def Let_def ElevatorNum_axes_frame
      ElevatorNum_door_frame)

lemma ElevatorNum_externalTransition_currentStatus:
  "ElevatorNumState.currentStatus (ElevatorNum_externalTransition s pulses xs ys ds) =
     ElevatorNumState.currentStatus (foldl ElevatorNum_onInput s pulses)"
  by (simp add: ElevatorNum_externalTransition_def Let_def ElevatorNum_axes_frame
      ElevatorNum_door_frame)

lemma ElevatorNum_locked_fold:
  "doorStatus s \<Longrightarrow>
   foldl ElevatorNum_onInput s pulses =
     s\<lparr>ElevatorNumState.currentStatus :=
         ElevatorNumState.currentStatus s @ concat (map (\<lambda>i. ''DC '') pulses)\<rparr>"
  by (induction pulses arbitrary: s) (simp_all add: ElevatorNum_onInput_def)

lemma ElevatorNum_onInput_no_quadrant:
  "\<not> doorStatus s \<Longrightarrow>
   \<not> (xCoordinate s < 400 \<and> yCoordinate s > 600) \<Longrightarrow>
   \<not> (xCoordinate s > 600 \<and> yCoordinate s > 600) \<Longrightarrow>
   \<not> (xCoordinate s < 400 \<and> yCoordinate s < 400) \<Longrightarrow>
   \<not> (xCoordinate s > 600 \<and> yCoordinate s < 400) \<Longrightarrow>
   ElevatorNum_onInput s i = s"
  by (auto simp add: ElevatorNum_onInput_def)

lemma ElevatorNum_onInput_same_floor:
  "\<not> doorStatus s \<Longrightarrow>
   (xCoordinate s < 400 \<and> yCoordinate s > 600 \<and> ElevatorNumState.floorNum s = 1) \<or>
   (xCoordinate s > 600 \<and> yCoordinate s > 600 \<and> ElevatorNumState.floorNum s = 2) \<or>
   (xCoordinate s < 400 \<and> yCoordinate s < 400 \<and> ElevatorNumState.floorNum s = 3) \<or>
   (xCoordinate s > 600 \<and> yCoordinate s < 400 \<and> ElevatorNumState.floorNum s = 4) \<Longrightarrow>
   ElevatorNum_onInput s i = s"
  by (auto simp add: ElevatorNum_onInput_def)

lemma ElevatorNum_fold_fixed:
  "(\<And>i. ElevatorNum_onInput s i = s) \<Longrightarrow> foldl ElevatorNum_onInput s pulses = s"
  by (induction pulses) simp_all

lemma ElevatorNum_pulses_locked:
  "doorStatus s \<Longrightarrow>
   doorStatus (ElevatorNum_pulses s pulses) \<and>
   ElevatorNumState.floorNum (ElevatorNum_pulses s pulses) = ElevatorNumState.floorNum s"
proof (induction pulses arbitrary: s)
  case Nil
  then show ?case by (simp add: ElevatorNum_pulses_def)
next
  case (Cons i pulses)
  let ?t = "ElevatorNum_externalTransition s [i] [] [] []"
  have t: "doorStatus ?t \<and> ElevatorNumState.floorNum ?t = ElevatorNumState.floorNum s"
    using Cons.prems
    by (simp add: ElevatorNum_externalTransition_def ElevatorNum_onInput_def)
  have "ElevatorNum_pulses s (i # pulses) = ElevatorNum_pulses ?t pulses"
    by (simp add: ElevatorNum_pulses_def)
  with Cons.IH [of ?t] t show ?case by simp
qed

lemma ElevatorNum_onInput_True:
  "\<not> doorStatus s \<Longrightarrow> ElevatorNum_onInput s True = s"
  by (simp add: ElevatorNum_onInput_def)

text \<open>
  C5. For every state of the floor selector with \<open>doorStatus = False\<close> (not locked), an
  external transition that carries one button message with value \<^verbatim>\<open>false\<close> (a confirm
  pulse: the code acts on \<^verbatim>\<open>i==0\<close>) leaves \<open>floorNum\<close> at the floor of the quadrant that
  strictly contains the stored axes: 1 for \<open>x < 400\<close>, \<open>y > 600\<close>; 2 for \<open>x > 600\<close>,
  \<open>y > 600\<close>; 3 for \<open>x < 400\<close>, \<open>y < 400\<close>; 4 for \<open>x > 600\<close>, \<open>y < 400\<close>. Messages on the other
  ports in the same transition do not change that.
\<close>

theorem ElevatorNum_confirm_quadrant:
  assumes "doorStatus s = False"
  shows "(xCoordinate s < 400 \<and> yCoordinate s > 600 \<longrightarrow>
            ElevatorNumState.floorNum (ElevatorNum_externalTransition s [False] xs ys ds) = 1) \<and>
         (xCoordinate s > 600 \<and> yCoordinate s > 600 \<longrightarrow>
            ElevatorNumState.floorNum (ElevatorNum_externalTransition s [False] xs ys ds) = 2) \<and>
         (xCoordinate s < 400 \<and> yCoordinate s < 400 \<longrightarrow>
            ElevatorNumState.floorNum (ElevatorNum_externalTransition s [False] xs ys ds) = 3) \<and>
         (xCoordinate s > 600 \<and> yCoordinate s < 400 \<longrightarrow>
            ElevatorNumState.floorNum (ElevatorNum_externalTransition s [False] xs ys ds) = 4)"
  using assms
  by (simp add: ElevatorNum_externalTransition_floorNum ElevatorNum_onInput_def)

theorem ElevatorNum_confirm_quadrant_witness:
  "ElevatorNumState.floorNum (ElevatorNum_externalTransition
     (ElevatorNum_initial\<lparr>xCoordinate := 100, yCoordinate := 900,
        ElevatorNumState.floorNum := 4\<rparr>) [False] [] [] []) = 1 \<and>
   ElevatorNumState.floorNum (ElevatorNum_externalTransition
     (ElevatorNum_initial\<lparr>xCoordinate := 900, yCoordinate := 900\<rparr>) [False] [] [] []) = 2 \<and>
   ElevatorNumState.floorNum (ElevatorNum_externalTransition
     (ElevatorNum_initial\<lparr>xCoordinate := 100, yCoordinate := 100\<rparr>) [False] [] [] []) = 3 \<and>
   ElevatorNumState.floorNum (ElevatorNum_externalTransition
     (ElevatorNum_initial\<lparr>xCoordinate := 900, yCoordinate := 100\<rparr>) [False] [] [] []) = 4"
  using ElevatorNum_confirm_quadrant
      [of "ElevatorNum_initial\<lparr>xCoordinate := 100, yCoordinate := 900,
             ElevatorNumState.floorNum := 4\<rparr>" "[]" "[]" "[]"]
    ElevatorNum_confirm_quadrant
      [of "ElevatorNum_initial\<lparr>xCoordinate := 900, yCoordinate := 900\<rparr>" "[]" "[]" "[]"]
    ElevatorNum_confirm_quadrant
      [of "ElevatorNum_initial\<lparr>xCoordinate := 100, yCoordinate := 100\<rparr>" "[]" "[]" "[]"]
    ElevatorNum_confirm_quadrant
      [of "ElevatorNum_initial\<lparr>xCoordinate := 900, yCoordinate := 100\<rparr>" "[]" "[]" "[]"]
  by (simp add: ElevatorNum_initial_def)

text \<open>
  C6. Button messages leave \<open>floorNum\<close> unchanged (the transition is total, so there is no
  error to raise):
  \<^item> whenever \<open>doorStatus\<close> (locked) holds, for every bag of messages in one transition and
    for every sequence of one-message transitions; each message appends \<^verbatim>\<open>"DC "\<close> to the
    diagnostic string and does nothing else;
  \<^item> whenever the selector is not locked and the stored axes lie strictly inside none of the
    four quadrants;
  \<^item> whenever the selector is not locked and the quadrant of the stored axes has the floor
    already in \<open>floorNum\<close>.
  In the last two cases the button messages change no field at all.
\<close>

theorem ElevatorNum_confirm_no_change:
  "(doorStatus s \<longrightarrow>
      ElevatorNumState.floorNum (ElevatorNum_externalTransition s pulses xs ys ds) =
        ElevatorNumState.floorNum s \<and>
      ElevatorNumState.currentStatus (ElevatorNum_externalTransition s pulses xs ys ds) =
        ElevatorNumState.currentStatus s @ concat (map (\<lambda>i. ''DC '') pulses) \<and>
      ElevatorNumState.floorNum (ElevatorNum_pulses s pulses) = ElevatorNumState.floorNum s) \<and>
   (\<not> doorStatus s \<and>
    \<not> (xCoordinate s < 400 \<and> yCoordinate s > 600) \<and>
    \<not> (xCoordinate s > 600 \<and> yCoordinate s > 600) \<and>
    \<not> (xCoordinate s < 400 \<and> yCoordinate s < 400) \<and>
    \<not> (xCoordinate s > 600 \<and> yCoordinate s < 400) \<longrightarrow>
      ElevatorNumState.floorNum (ElevatorNum_externalTransition s pulses xs ys ds) =
        ElevatorNumState.floorNum s \<and>
      ElevatorNum_externalTransition s pulses [] [] [] = s) \<and>
   (\<not> doorStatus s \<and>
    ((xCoordinate s < 400 \<and> yCoordinate s > 600 \<and> ElevatorNumState.floorNum s = 1) \<or>
     (xCoordinate s > 600 \<and> yCoordinate s > 600 \<and> ElevatorNumState.floorNum s = 2) \<or>
     (xCoordinate s < 400 \<and> yCoordinate s < 400 \<and> ElevatorNumState.floorNum s = 3) \<or>
     (xCoordinate s > 600 \<and> yCoordinate s < 400 \<and> ElevatorNumState.floorNum s = 4)) \<longrightarrow>
      ElevatorNumState.floorNum (ElevatorNum_externalTransition s pulses xs ys ds) =
        ElevatorNumState.floorNum s \<and>
      ElevatorNum_externalTransition s pulses [] [] [] = s)"
proof (intro conjI impI)
  assume locked: "doorStatus s"
  show "ElevatorNumState.floorNum (ElevatorNum_externalTransition s pulses xs ys ds) =
        ElevatorNumState.floorNum s"
    using locked
    by (simp add: ElevatorNum_externalTransition_floorNum ElevatorNum_locked_fold)
  show "ElevatorNumState.currentStatus (ElevatorNum_externalTransition s pulses xs ys ds) =
        ElevatorNumState.currentStatus s @ concat (map (\<lambda>i. ''DC '') pulses)"
    using locked
    by (simp add: ElevatorNum_externalTransition_currentStatus ElevatorNum_locked_fold)
  show "ElevatorNumState.floorNum (ElevatorNum_pulses s pulses) = ElevatorNumState.floorNum s"
    using locked by (simp add: ElevatorNum_pulses_locked)
next
  assume a: "\<not> doorStatus s \<and>
    \<not> (xCoordinate s < 400 \<and> yCoordinate s > 600) \<and>
    \<not> (xCoordinate s > 600 \<and> yCoordinate s > 600) \<and>
    \<not> (xCoordinate s < 400 \<and> yCoordinate s < 400) \<and>
    \<not> (xCoordinate s > 600 \<and> yCoordinate s < 400)"
  then have fixed: "foldl ElevatorNum_onInput s pulses = s"
    by (intro ElevatorNum_fold_fixed ElevatorNum_onInput_no_quadrant) simp_all
  show "ElevatorNumState.floorNum (ElevatorNum_externalTransition s pulses xs ys ds) =
        ElevatorNumState.floorNum s"
    by (simp add: ElevatorNum_externalTransition_floorNum fixed)
  show "ElevatorNum_externalTransition s pulses [] [] [] = s"
    by (simp add: ElevatorNum_externalTransition_def fixed)
next
  assume a: "\<not> doorStatus s \<and>
    ((xCoordinate s < 400 \<and> yCoordinate s > 600 \<and> ElevatorNumState.floorNum s = 1) \<or>
     (xCoordinate s > 600 \<and> yCoordinate s > 600 \<and> ElevatorNumState.floorNum s = 2) \<or>
     (xCoordinate s < 400 \<and> yCoordinate s < 400 \<and> ElevatorNumState.floorNum s = 3) \<or>
     (xCoordinate s > 600 \<and> yCoordinate s < 400 \<and> ElevatorNumState.floorNum s = 4))"
  then have fixed: "foldl ElevatorNum_onInput s pulses = s"
    by (intro ElevatorNum_fold_fixed ElevatorNum_onInput_same_floor) simp_all
  show "ElevatorNumState.floorNum (ElevatorNum_externalTransition s pulses xs ys ds) =
        ElevatorNumState.floorNum s"
    by (simp add: ElevatorNum_externalTransition_floorNum fixed)
  show "ElevatorNum_externalTransition s pulses [] [] [] = s"
    by (simp add: ElevatorNum_externalTransition_def fixed)
qed

theorem ElevatorNum_confirm_no_change_witness:
  "ElevatorNumState.floorNum (ElevatorNum_externalTransition
     (ElevatorNum_initial\<lparr>xCoordinate := 900, yCoordinate := 900, doorStatus := True\<rparr>)
     [False, False] [] [] []) = 1 \<and>
   ElevatorNumState.currentStatus (ElevatorNum_externalTransition
     (ElevatorNum_initial\<lparr>xCoordinate := 900, yCoordinate := 900, doorStatus := True\<rparr>)
     [False, False] [] [] []) = ''DC DC '' \<and>
   ElevatorNumState.floorNum (ElevatorNum_pulses
     (ElevatorNum_initial\<lparr>xCoordinate := 900, yCoordinate := 900, doorStatus := True\<rparr>)
     [False, False]) = 1 \<and>
   ElevatorNum_externalTransition
     (ElevatorNum_initial\<lparr>xCoordinate := 500, yCoordinate := 900\<rparr>) [False] [] [] [] =
     ElevatorNum_initial\<lparr>xCoordinate := 500, yCoordinate := 900\<rparr> \<and>
   ElevatorNum_externalTransition
     (ElevatorNum_initial\<lparr>xCoordinate := 100, yCoordinate := 900\<rparr>) [False] [] [] [] =
     ElevatorNum_initial\<lparr>xCoordinate := 100, yCoordinate := 900\<rparr>"
  using ElevatorNum_confirm_no_change
      [of "ElevatorNum_initial\<lparr>xCoordinate := 900, yCoordinate := 900, doorStatus := True\<rparr>"
        "[False, False]" "[]" "[]" "[]"]
    ElevatorNum_confirm_no_change
      [of "ElevatorNum_initial\<lparr>xCoordinate := 500, yCoordinate := 900\<rparr>"
        "[False]" "[]" "[]" "[]"]
    ElevatorNum_confirm_no_change
      [of "ElevatorNum_initial\<lparr>xCoordinate := 100, yCoordinate := 900\<rparr>"
        "[False]" "[]" "[]" "[]"]
  by (simp add: ElevatorNum_initial_def)

text \<open>
  C10. The floor selector resolves a floor only on button messages whose value is
  \<^verbatim>\<open>false\<close>: for every state with \<open>doorStatus = False\<close> (not locked), a button message
  with value \<^verbatim>\<open>true\<close> leaves \<open>floorNum\<close> and the diagnostic string \<open>currentStatus\<close> as they
  were, and with nothing on the other ports it leaves the whole state as it was.
\<close>

theorem ElevatorNum_true_message_ignored:
  "doorStatus s = False \<Longrightarrow>
   ElevatorNumState.floorNum (ElevatorNum_externalTransition s [True] xs ys ds) =
     ElevatorNumState.floorNum s \<and>
   ElevatorNumState.currentStatus (ElevatorNum_externalTransition s [True] xs ys ds) =
     ElevatorNumState.currentStatus s \<and>
   ElevatorNum_externalTransition s [True] [] [] [] = s"
  by (simp add: ElevatorNum_externalTransition_floorNum
      ElevatorNum_externalTransition_currentStatus ElevatorNum_onInput_True)
    (simp add: ElevatorNum_externalTransition_def ElevatorNum_onInput_True)

theorem ElevatorNum_true_message_ignored_witness:
  "ElevatorNumState.floorNum (ElevatorNum_externalTransition
     (ElevatorNum_initial\<lparr>xCoordinate := 900, yCoordinate := 900\<rparr>) [True] [] [] []) = 1 \<and>
   ElevatorNumState.currentStatus (ElevatorNum_externalTransition
     (ElevatorNum_initial\<lparr>xCoordinate := 900, yCoordinate := 900\<rparr>) [True] [] [] []) = [] \<and>
   ElevatorNumState.floorNum (ElevatorNum_externalTransition
     (ElevatorNum_initial\<lparr>xCoordinate := 900, yCoordinate := 900\<rparr>) [False] [] [] []) = 2"
  using ElevatorNum_true_message_ignored
      [of "ElevatorNum_initial\<lparr>xCoordinate := 900, yCoordinate := 900\<rparr>" "[]" "[]" "[]"]
  by (simp add: ElevatorNum_initial_def ElevatorNum_externalTransition_def
      ElevatorNum_onInput_def)

section \<open>Properties of ElevatorMove\<close>

lemma ElevatorMove_onMoveFloor_frame:
  "ElevatorMoveState.floorNum (foldl ElevatorMove_onMoveFloor s xs) = ElevatorMoveState.floorNum s \<and>
   buzzerDuty (foldl ElevatorMove_onMoveFloor s xs) = buzzerDuty s \<and>
   ElevatorMoveState.sigma (foldl ElevatorMove_onMoveFloor s xs) = ElevatorMoveState.sigma s \<and>
   ElevatorMoveState.currentStatus (foldl ElevatorMove_onMoveFloor s xs) =
     ElevatorMoveState.currentStatus s"
  by (induction xs arbitrary: s) (simp_all add: ElevatorMove_onMoveFloor_def)

lemma ElevatorMove_externalTransition_frame:
  "ElevatorMoveState.floorNum (ElevatorMove_externalTransition s xs) = ElevatorMoveState.floorNum s \<and>
   buzzerDuty (ElevatorMove_externalTransition s xs) = buzzerDuty s \<and>
   ElevatorMoveState.sigma (ElevatorMove_externalTransition s xs) = ElevatorMoveState.sigma s \<and>
   ElevatorMoveState.currentStatus (ElevatorMove_externalTransition s xs) =
     ElevatorMoveState.currentStatus s"
  by (simp add: ElevatorMove_externalTransition_def ElevatorMove_onMoveFloor_frame)

lemma ElevatorMove_onMoveFloor_target:
  "floorToMove (foldl ElevatorMove_onMoveFloor s (xs @ [x])) = x"
  by (simp add: ElevatorMove_onMoveFloor_def)

lemma ElevatorMove_externalTransition_target:
  "floorToMove (ElevatorMove_externalTransition s xs) = (if xs = [] then floorToMove s else last xs)"
proof (cases xs rule: rev_cases)
  case Nil
  then show ?thesis by (simp add: ElevatorMove_externalTransition_def)
next
  case (snoc ys y)
  then show ?thesis
    using ElevatorMove_onMoveFloor_target [of s ys y]
    by (simp add: ElevatorMove_externalTransition_def del: foldl_append)
qed

lemma ElevatorMove_same_target_fold:
  "\<forall>x\<in>set xs. x = floorToMove s \<Longrightarrow> foldl ElevatorMove_onMoveFloor s xs = s"
  by (induction xs) (simp_all add: ElevatorMove_onMoveFloor_def)

lemma ElevatorMove_internalTransition_sigma:
  "ElevatorMoveState.sigma (ElevatorMove_internalTransition s) = ElevatorMoveState.sigma s"
  by (simp add: ElevatorMove_internalTransition_def)

lemma ElevatorMove_reachable_sigma:
  "ElevatorMove_reachable s \<Longrightarrow> ElevatorMoveState.sigma s = Seconds 2.0"
proof (induction rule: ElevatorMove_reachable.induct)
  case initial
  show ?case by (simp add: ElevatorMove_initial_def)
next
  case (internal s)
  then show ?case by (simp add: ElevatorMove_internalTransition_sigma)
next
  case (external s inMoveFloor)
  then show ?case by (simp add: ElevatorMove_externalTransition_frame)
qed

lemma ElevatorMove_internalTransition_in_range:
  "int32_range (ElevatorMoveState.floorNum s) \<Longrightarrow> int32_range (floorToMove s) \<Longrightarrow>
   int32_range (ElevatorMoveState.floorNum (ElevatorMove_internalTransition s))"
  by (auto simp add: int32_range_def ElevatorMove_internalTransition_def)

lemma ElevatorMove_internalTransition_target:
  "floorToMove (ElevatorMove_internalTransition s) = floorToMove s"
  by (simp add: ElevatorMove_internalTransition_def)

lemma ElevatorMove_steps_target:
  "floorToMove ((ElevatorMove_internalTransition ^^ k) s) = floorToMove s"
  by (induction k) (simp_all add: ElevatorMove_internalTransition_target)

lemma ElevatorMove_step_up:
  "ElevatorMoveState.floorNum t < floorToMove t \<Longrightarrow>
   ElevatorMoveState.floorNum (ElevatorMove_internalTransition t) =
     ElevatorMoveState.floorNum t + 1 \<and>
   buzzerDuty (ElevatorMove_internalTransition t) = 2"
  by (simp add: ElevatorMove_internalTransition_def)

lemma ElevatorMove_step_down:
  "ElevatorMoveState.floorNum t > floorToMove t \<Longrightarrow>
   ElevatorMoveState.floorNum (ElevatorMove_internalTransition t) =
     ElevatorMoveState.floorNum t - 1 \<and>
   buzzerDuty (ElevatorMove_internalTransition t) = 2"
  by (simp add: ElevatorMove_internalTransition_def)

lemma ElevatorMove_steps_up:
  "ElevatorMoveState.floorNum s < floorToMove s \<Longrightarrow>
   int k \<le> floorToMove s - ElevatorMoveState.floorNum s \<Longrightarrow>
   ElevatorMoveState.floorNum ((ElevatorMove_internalTransition ^^ k) s) =
     ElevatorMoveState.floorNum s + int k \<and>
   (0 < k \<longrightarrow> buzzerDuty ((ElevatorMove_internalTransition ^^ k) s) = 2)"
proof (induction k)
  case 0
  then show ?case by simp
next
  case (Suc k)
  let ?t = "(ElevatorMove_internalTransition ^^ k) s"
  have pos: "ElevatorMoveState.floorNum ?t = ElevatorMoveState.floorNum s + int k"
    using Suc by simp
  have tgt: "floorToMove ?t = floorToMove s"
    by (rule ElevatorMove_steps_target)
  have "ElevatorMoveState.floorNum ?t < floorToMove ?t"
    using pos tgt Suc.prems by simp
  from ElevatorMove_step_up [OF this] show ?case
    using pos by simp
qed

lemma ElevatorMove_steps_down:
  "ElevatorMoveState.floorNum s > floorToMove s \<Longrightarrow>
   int k \<le> ElevatorMoveState.floorNum s - floorToMove s \<Longrightarrow>
   ElevatorMoveState.floorNum ((ElevatorMove_internalTransition ^^ k) s) =
     ElevatorMoveState.floorNum s - int k \<and>
   (0 < k \<longrightarrow> buzzerDuty ((ElevatorMove_internalTransition ^^ k) s) = 2)"
proof (induction k)
  case 0
  then show ?case by simp
next
  case (Suc k)
  let ?t = "(ElevatorMove_internalTransition ^^ k) s"
  have pos: "ElevatorMoveState.floorNum ?t = ElevatorMoveState.floorNum s - int k"
    using Suc by simp
  have tgt: "floorToMove ?t = floorToMove s"
    by (rule ElevatorMove_steps_target)
  have "ElevatorMoveState.floorNum ?t > floorToMove ?t"
    using pos tgt Suc.prems by simp
  from ElevatorMove_step_down [OF this] show ?case
    using pos by simp
qed

lemma ElevatorMove_arrived_step:
  "ElevatorMoveState.floorNum s = floorToMove s \<Longrightarrow>
   ElevatorMove_internalTransition s = s\<lparr>buzzerDuty := 0\<rparr>"
  by (simp add: ElevatorMove_internalTransition_def)

text \<open>
  C2, as the code has it. When the internal transition of the mover fires in a reachable
  state with \<open>floorNum = floorToMove\<close>, it sets \<open>buzzerDuty\<close> to 0 and changes nothing else.
  The mover does not become quiescent: no transition of the mover writes \<open>sigma\<close>, which
  is 2.0 in every reachable state, so the time advance after the transition is still 2.0
  and the internal transition keeps firing every 2.0 time units. Each further firing
  leaves the state as it is, and so does an external transition whose messages all carry
  the stored target; only a different target moves the mover again.
\<close>

theorem ElevatorMove_arrived_keeps_polling:
  assumes "ElevatorMove_reachable s"
    and "ElevatorMoveState.floorNum s = floorToMove s"
  shows "ElevatorMove_internalTransition s = s\<lparr>buzzerDuty := 0\<rparr> \<and>
         ElevatorMove_timeAdvance s = Seconds 2.0 \<and>
         ElevatorMove_timeAdvance (ElevatorMove_internalTransition s) = Seconds 2.0 \<and>
         ElevatorMove_internalTransition (ElevatorMove_internalTransition s) =
           ElevatorMove_internalTransition s \<and>
         ((\<forall>x\<in>set xs. x = floorToMove s) \<longrightarrow>
            ElevatorMove_externalTransition (ElevatorMove_internalTransition s) xs =
              ElevatorMove_internalTransition s)"
proof -
  have step: "ElevatorMove_internalTransition s = s\<lparr>buzzerDuty := 0\<rparr>"
    using assms(2) by (rule ElevatorMove_arrived_step)
  have now: "ElevatorMove_timeAdvance s = Seconds 2.0"
    using ElevatorMove_reachable_sigma [OF assms(1)] by (simp add: ElevatorMove_timeAdvance_def)
  have after: "ElevatorMove_timeAdvance (ElevatorMove_internalTransition s) = Seconds 2.0"
    using ElevatorMove_reachable_sigma [OF ElevatorMove_reachable.internal [OF assms(1)]]
    by (simp add: ElevatorMove_timeAdvance_def)
  have again: "ElevatorMove_internalTransition (ElevatorMove_internalTransition s) =
      ElevatorMove_internalTransition s"
    using assms(2) by (simp add: ElevatorMove_internalTransition_def)
  have same: "(\<forall>x\<in>set xs. x = floorToMove s) \<longrightarrow>
      ElevatorMove_externalTransition (ElevatorMove_internalTransition s) xs =
        ElevatorMove_internalTransition s"
  proof
    assume "\<forall>x\<in>set xs. x = floorToMove s"
    then have "\<forall>x\<in>set xs. x = floorToMove (ElevatorMove_internalTransition s)"
      by (simp add: ElevatorMove_internalTransition_target)
    then show "ElevatorMove_externalTransition (ElevatorMove_internalTransition s) xs =
        ElevatorMove_internalTransition s"
      by (simp add: ElevatorMove_externalTransition_def ElevatorMove_same_target_fold)
  qed
  from step now after again same show ?thesis by blast
qed

theorem ElevatorMove_arrived_keeps_polling_witness:
  "ElevatorMove_internalTransition ElevatorMove_initial =
     ElevatorMove_initial\<lparr>buzzerDuty := 0\<rparr> \<and>
   ElevatorMove_timeAdvance (ElevatorMove_internalTransition ElevatorMove_initial) = Seconds 2.0 \<and>
   ElevatorMove_externalTransition (ElevatorMove_internalTransition ElevatorMove_initial) [1] =
     ElevatorMove_internalTransition ElevatorMove_initial"
proof -
  have arrived: "ElevatorMoveState.floorNum ElevatorMove_initial = floorToMove ElevatorMove_initial"
    by (simp add: ElevatorMove_initial_def)
  have target: "\<forall>x\<in>set [1]. x = floorToMove ElevatorMove_initial"
    by (simp add: ElevatorMove_initial_def)
  from ElevatorMove_arrived_keeps_polling [OF ElevatorMove_reachable.initial arrived, of "[1]"]
    target
  show ?thesis by blast
qed

text \<open>
  C2 as stated fails: in the initial state the mover is at its target; the internal
  transition sets \<open>buzzerDuty\<close> to 0, and the time advance afterwards is 2.0, not
  infinity, so the next internal transition is scheduled.
\<close>

theorem ElevatorMove_idle_not_quiescent:
  "ElevatorMoveState.floorNum ElevatorMove_initial = floorToMove ElevatorMove_initial \<and>
   buzzerDuty (ElevatorMove_internalTransition ElevatorMove_initial) = 0 \<and>
   ElevatorMove_timeAdvance (ElevatorMove_internalTransition ElevatorMove_initial) = Seconds 2.0 \<and>
   ElevatorMove_timeAdvance (ElevatorMove_internalTransition ElevatorMove_initial) \<noteq> Infinity"
  by (simp add: ElevatorMove_initial_def ElevatorMove_internalTransition_def
      ElevatorMove_timeAdvance_def)

text \<open>
  C7, as the code has it. Let the mover be at floor \<open>A\<close> with target \<open>B\<close>, \<open>A \<noteq> B\<close>, and let
  only internal transitions follow. Each of the first \<open>|B - A|\<close> internal transitions
  changes \<open>floorNum\<close> by exactly one toward \<open>B\<close> (plus one when \<open>A < B\<close>, minus one
  otherwise) from a floor that is not yet \<open>B\<close>, and leaves \<open>buzzerDuty\<close> nonzero. After
  exactly \<open>|B - A|\<close> of them \<open>floorNum\<close> is \<open>B\<close>, and \<open>buzzerDuty\<close> is still 2 on that arriving
  transition. The next internal transition, number \<open>|B - A| + 1\<close>, keeps \<open>floorNum\<close> at \<open>B\<close>
  and sets \<open>buzzerDuty\<close> to 0: that is when the mover is idle.
\<close>

theorem ElevatorMove_traversal:
  assumes "ElevatorMoveState.floorNum s = A" and "floorToMove s = B" and "A \<noteq> B"
  shows "(\<forall>k < nat \<bar>B - A\<bar>.
            ElevatorMoveState.floorNum ((ElevatorMove_internalTransition ^^ Suc k) s) =
              ElevatorMoveState.floorNum ((ElevatorMove_internalTransition ^^ k) s) +
                (if A < B then 1 else - 1) \<and>
            buzzerDuty ((ElevatorMove_internalTransition ^^ Suc k) s) \<noteq> 0 \<and>
            ElevatorMoveState.floorNum ((ElevatorMove_internalTransition ^^ k) s) \<noteq> B) \<and>
         ElevatorMoveState.floorNum ((ElevatorMove_internalTransition ^^ nat \<bar>B - A\<bar>) s) = B \<and>
         buzzerDuty ((ElevatorMove_internalTransition ^^ nat \<bar>B - A\<bar>) s) = 2 \<and>
         ElevatorMoveState.floorNum ((ElevatorMove_internalTransition ^^ Suc (nat \<bar>B - A\<bar>)) s) = B \<and>
         buzzerDuty ((ElevatorMove_internalTransition ^^ Suc (nat \<bar>B - A\<bar>)) s) = 0"
proof -
  let ?n = "nat \<bar>B - A\<bar>"
  let ?it = "\<lambda>k. (ElevatorMove_internalTransition ^^ k) s"
  let ?d = "if A < B then 1 else - 1 :: int"
  have n_pos: "0 < ?n" using assms(3) by simp
  have closed: "ElevatorMoveState.floorNum (?it k) = A + ?d * int k \<and>
      (0 < k \<longrightarrow> buzzerDuty (?it k) = 2)" if "k \<le> ?n" for k
  proof (cases "A < B")
    case True
    then have "ElevatorMoveState.floorNum s < floorToMove s" using assms by simp
    moreover have "int k \<le> floorToMove s - ElevatorMoveState.floorNum s"
      using that True assms by simp
    ultimately show ?thesis
      using ElevatorMove_steps_up [of s k] True assms by simp
  next
    case False
    then have "ElevatorMoveState.floorNum s > floorToMove s" using assms by simp
    moreover have "int k \<le> ElevatorMoveState.floorNum s - floorToMove s"
      using that False assms by simp
    ultimately show ?thesis
      using ElevatorMove_steps_down [of s k] False assms by simp
  qed
  have moving: "\<forall>k < ?n.
      ElevatorMoveState.floorNum (?it (Suc k)) = ElevatorMoveState.floorNum (?it k) + ?d \<and>
      buzzerDuty (?it (Suc k)) \<noteq> 0 \<and>
      ElevatorMoveState.floorNum (?it k) \<noteq> B"
  proof (intro allI impI)
    fix k assume k: "k < ?n"
    have a: "ElevatorMoveState.floorNum (?it k) = A + ?d * int k"
      using closed [of k] k by simp
    have b: "ElevatorMoveState.floorNum (?it (Suc k)) = A + ?d * int (Suc k) \<and>
        buzzerDuty (?it (Suc k)) = 2"
      using closed [of "Suc k"] k by simp
    have c: "A + ?d * int k \<noteq> B"
      using k by (cases "A < B") auto
    show "ElevatorMoveState.floorNum (?it (Suc k)) = ElevatorMoveState.floorNum (?it k) + ?d \<and>
      buzzerDuty (?it (Suc k)) \<noteq> 0 \<and>
      ElevatorMoveState.floorNum (?it k) \<noteq> B"
      using a b c by (simp split: if_splits)
  qed
  have arrive: "ElevatorMoveState.floorNum (?it ?n) = B \<and> buzzerDuty (?it ?n) = 2"
    using closed [of ?n] n_pos assms(3) by (simp split: if_splits)
  have "ElevatorMoveState.floorNum (?it ?n) = floorToMove (?it ?n)"
    using arrive assms(2) by (simp add: ElevatorMove_steps_target)
  from ElevatorMove_arrived_step [OF this]
  have idle: "ElevatorMoveState.floorNum (?it (Suc ?n)) = B \<and> buzzerDuty (?it (Suc ?n)) = 0"
    using arrive by simp
  from moving arrive idle show ?thesis by blast
qed

theorem ElevatorMove_traversal_witness:
  "ElevatorMoveState.floorNum
     ((ElevatorMove_internalTransition ^^ 3) (ElevatorMove_externalTransition ElevatorMove_initial [4])) = 4 \<and>
   buzzerDuty
     ((ElevatorMove_internalTransition ^^ 3) (ElevatorMove_externalTransition ElevatorMove_initial [4])) = 2 \<and>
   buzzerDuty
     ((ElevatorMove_internalTransition ^^ 4) (ElevatorMove_externalTransition ElevatorMove_initial [4])) = 0"
proof -
  let ?s = "ElevatorMove_externalTransition ElevatorMove_initial [4]"
  have a: "ElevatorMoveState.floorNum ?s = 1"
    by (simp add: ElevatorMove_externalTransition_frame ElevatorMove_initial_def)
  have b: "floorToMove ?s = 4"
    by (simp add: ElevatorMove_externalTransition_target)
  have c: "(1::int) \<noteq> 4" by simp
  from ElevatorMove_traversal [OF a b c] show ?thesis
    by simp
qed

text \<open>
  C7 as stated fails: from floor 1 with target 2, \<open>|B - A| = 1\<close> internal transition
  brings \<open>floorNum\<close> to 2, but \<open>buzzerDuty\<close> is 2 on that final arrival, so the mover is not
  idle after \<open>|B - A|\<close> transitions; it becomes idle on the second.
\<close>

theorem ElevatorMove_arrival_not_idle:
  "ElevatorMoveState.floorNum (ElevatorMove_externalTransition ElevatorMove_initial [2]) = 1 \<and>
   floorToMove (ElevatorMove_externalTransition ElevatorMove_initial [2]) = 2 \<and>
   ElevatorMoveState.floorNum
     ((ElevatorMove_internalTransition ^^ nat \<bar>2 - 1\<bar>)
        (ElevatorMove_externalTransition ElevatorMove_initial [2])) = 2 \<and>
   buzzerDuty
     ((ElevatorMove_internalTransition ^^ nat \<bar>2 - 1\<bar>)
        (ElevatorMove_externalTransition ElevatorMove_initial [2])) \<noteq> 0 \<and>
   buzzerDuty
     ((ElevatorMove_internalTransition ^^ Suc (nat \<bar>2 - 1\<bar>))
        (ElevatorMove_externalTransition ElevatorMove_initial [2])) = 0"
  by (simp add: ElevatorMove_initial_def ElevatorMove_externalTransition_def
      ElevatorMove_onMoveFloor_def ElevatorMove_internalTransition_def)

text \<open>
  C8, as the code has it. The predicate "idle exactly when \<open>floorNum = floorToMove\<close>" holds
  in the initial state, but it is not preserved by every transition. For every state:
  after an internal transition \<open>buzzerDuty\<close> is 0 exactly when \<open>floorNum = floorToMove\<close> held
  before that transition, so the state after an internal transition satisfies the predicate
  unless the transition was the arriving step (\<open>|floorToMove - floorNum| = 1\<close> before it);
  an external transition changes neither \<open>buzzerDuty\<close> nor \<open>floorNum\<close>, so the state after it
  satisfies the predicate exactly when the old activity agrees with the new target, and
  it changes nothing when every received target is the stored one.
\<close>

theorem ElevatorMove_idle_lags_arrival:
  "ElevatorMove_idle_iff_arrived ElevatorMove_initial \<and>
   (buzzerDuty (ElevatorMove_internalTransition s) = 0) =
     (ElevatorMoveState.floorNum s = floorToMove s) \<and>
   ElevatorMove_idle_iff_arrived (ElevatorMove_internalTransition s) =
     (\<bar>floorToMove s - ElevatorMoveState.floorNum s\<bar> \<noteq> 1) \<and>
   buzzerDuty (ElevatorMove_externalTransition s xs) = buzzerDuty s \<and>
   ElevatorMoveState.floorNum (ElevatorMove_externalTransition s xs) =
     ElevatorMoveState.floorNum s \<and>
   ElevatorMove_idle_iff_arrived (ElevatorMove_externalTransition s xs) =
     ((buzzerDuty s = 0) =
      (ElevatorMoveState.floorNum s = (if xs = [] then floorToMove s else last xs))) \<and>
   ((\<forall>x\<in>set xs. x = floorToMove s) \<longrightarrow> ElevatorMove_externalTransition s xs = s)"
proof -
  have init: "ElevatorMove_idle_iff_arrived ElevatorMove_initial"
    by (simp add: ElevatorMove_idle_iff_arrived_def ElevatorMove_initial_def)
  have lag: "(buzzerDuty (ElevatorMove_internalTransition s) = 0) =
      (ElevatorMoveState.floorNum s = floorToMove s)"
    by (simp add: ElevatorMove_internalTransition_def)
  have int: "ElevatorMove_idle_iff_arrived (ElevatorMove_internalTransition s) =
      (\<bar>floorToMove s - ElevatorMoveState.floorNum s\<bar> \<noteq> 1)"
    by (auto simp add: ElevatorMove_idle_iff_arrived_def ElevatorMove_internalTransition_def)
  have ext: "ElevatorMove_idle_iff_arrived (ElevatorMove_externalTransition s xs) =
      ((buzzerDuty s = 0) =
       (ElevatorMoveState.floorNum s = (if xs = [] then floorToMove s else last xs)))"
    by (simp only: ElevatorMove_idle_iff_arrived_def ElevatorMove_externalTransition_frame
        ElevatorMove_externalTransition_target)
  have same: "(\<forall>x\<in>set xs. x = floorToMove s) \<longrightarrow> ElevatorMove_externalTransition s xs = s"
    by (simp add: ElevatorMove_externalTransition_def ElevatorMove_same_target_fold)
  from init lag int ext same show ?thesis
    by (simp only: ElevatorMove_externalTransition_frame simp_thms)
qed

theorem ElevatorMove_idle_lags_arrival_witness:
  "ElevatorMove_idle_iff_arrived (ElevatorMove_internalTransition ElevatorMove_initial) \<and>
   buzzerDuty (ElevatorMove_internalTransition ElevatorMove_initial) = 0 \<and>
   ElevatorMove_externalTransition ElevatorMove_initial [1, 1] = ElevatorMove_initial"
proof -
  have target: "\<forall>x\<in>set [1, 1]. x = floorToMove ElevatorMove_initial"
    by (simp add: ElevatorMove_initial_def)
  from ElevatorMove_idle_lags_arrival [of ElevatorMove_initial "[1, 1]"] target
  show ?thesis by (simp add: ElevatorMove_initial_def)
qed

text \<open>
  C8 as stated fails: the state reached from the initial one by an external transition
  with target 2 is idle but not at its target, and the state reached from there by the
  arriving internal transition is at its target but not idle.
\<close>

theorem ElevatorMove_idle_iff_arrived_broken:
  "ElevatorMove_reachable (ElevatorMove_externalTransition ElevatorMove_initial [2]) \<and>
   \<not> ElevatorMove_idle_iff_arrived (ElevatorMove_externalTransition ElevatorMove_initial [2]) \<and>
   ElevatorMove_reachable
     (ElevatorMove_internalTransition (ElevatorMove_externalTransition ElevatorMove_initial [2])) \<and>
   \<not> ElevatorMove_idle_iff_arrived
     (ElevatorMove_internalTransition (ElevatorMove_externalTransition ElevatorMove_initial [2]))"
proof -
  have r1: "ElevatorMove_reachable (ElevatorMove_externalTransition ElevatorMove_initial [2])"
    by (intro ElevatorMove_reachable.intros)
  have r2: "ElevatorMove_reachable
     (ElevatorMove_internalTransition (ElevatorMove_externalTransition ElevatorMove_initial [2]))"
    by (intro ElevatorMove_reachable.intros)
  have b1: "\<not> ElevatorMove_idle_iff_arrived (ElevatorMove_externalTransition ElevatorMove_initial [2])"
    by (simp add: ElevatorMove_idle_iff_arrived_def ElevatorMove_initial_def
        ElevatorMove_externalTransition_def ElevatorMove_onMoveFloor_def)
  have b2: "\<not> ElevatorMove_idle_iff_arrived
     (ElevatorMove_internalTransition (ElevatorMove_externalTransition ElevatorMove_initial [2]))"
    by (simp add: ElevatorMove_idle_iff_arrived_def ElevatorMove_initial_def
        ElevatorMove_externalTransition_def ElevatorMove_onMoveFloor_def
        ElevatorMove_internalTransition_def)
  from r1 b1 r2 b2 show ?thesis by blast
qed

end
